theory Spec2Isabelle
  imports Main "HOL-Library.Sublist"
begin

section \<open>Configuration objects of mod.ts\<close>

text \<open>
  The interfaces of mod.ts, one record each. An optional property \<open>x?: T\<close> is a field of
  type \<open>T option\<close>, \<open>None\<close> standing for \<open>undefined\<close>. A union of a primitive and
  a structure is a datatype with one constructor for each alternative.
\<close>

datatype boolOrString = BoolVal bool | StrVal string

record Permissions =
  allowAll :: "bool option"
  allowEnv :: "bool option"
  allowHRTime :: "bool option"
  allowNet :: "boolOrString option"
  allowPlugin :: "bool option"
  allowRead :: "boolOrString option"
  allowRun :: "bool option"
  allowWrite :: "boolOrString option"

text \<open>
  The objects of \<open>WatchOptions\<close> are spread into a new object (lines 174 to 179), and a
  spread copies every own property of its source, also one whose value is \<open>undefined\<close>.
  So a property of a \<open>WatchOptions\<close> is absent, present with the value
  \<open>undefined\<close>, or present with a value. The other interfaces are only read, and a read
  gives \<open>undefined\<close> for an absent property as for one that is \<open>undefined\<close>.
\<close>

datatype 'a property = Absent | Undefined | Value 'a

record WatchOptions =
  paths :: "string list property"
  matchGlobs :: "string list property"
  skip :: "string list property"
  extensions :: "string list property"
  interval :: "int property"
  recursive :: "bool property"

text \<open>\<open>boolean | string\<close> for \<open>envFile\<close>, \<open>string | string[]\<close> for \<open>args\<close>,
  \<open>denoArgs\<close> and \<open>run\<close>, \<open>boolean | WatchOptions\<close> for \<open>watch\<close>, and
  \<open>string | number | boolean\<close> for the values of \<open>env\<close>.\<close>

datatype envFileValue = EnvFileBool bool | EnvFilePath string

datatype stringOrList = Str string | StrList "string list"

datatype watchValue = WatchBool bool | WatchObject WatchOptions

datatype scalar = ScalarStr string | ScalarNum int | ScalarBool bool

type_synonym envObject = "(string \<times> scalar) list"

type_synonym envMap = "string \<rightharpoonup> string"

record CommonArgs =
  envFile :: "envFileValue option"
  env :: "envObject option"
  args :: "stringOrList option"
  watch :: "watchValue option"

record CommonDenoConfig = CommonArgs +
  permissions :: "Permissions option"
  tsconfig :: "string option"
  denoArgs :: "stringOrList option"

record GlobalConfig = CommonDenoConfig +
  debug :: "bool option"
  importMap :: "string option"
  unstable :: "bool option"

text \<open>
  \<open>ScriptFile | ScriptRun\<close>: the code tells the two apart by reading the optional
  properties \<open>file\<close> and \<open>run\<close>, so a script is one record with both. A \<open>ScriptFile\<close>
  has \<open>file\<close> set and \<open>run\<close> undefined; a \<open>ScriptRun\<close> has \<open>run\<close> set, \<open>file\<close>
  undefined and none of the properties added by \<open>CommonDenoConfig\<close>.
\<close>

record Script = CommonDenoConfig +
  "file" :: "string option"
  run :: "stringOrList option"

section \<open>Collaborators\<close>

text \<open>
  The modules \<open>lib/args.ts\<close>, \<open>lib/env.ts\<close>, \<open>lib/permissions.ts\<close> and
  \<open>lib/utils.ts\<close> are imported by mod.ts and are not part of the sources at hand.
  \<open>Scripts\<close> takes the functions it imports from them as a record, so that what is
  proved of \<open>Scripts\<close> holds for every implementation of them. \<open>loadEnvFromFile\<close>
  reads a file and may throw.
\<close>

datatype 'a loaded = LoadError | Loaded 'a

record Lib =
  argifyPermissions :: "Permissions option \<Rightarrow> Permissions option \<Rightarrow> string list"
  argifyTsconfig :: "string option \<Rightarrow> string option \<Rightarrow> string list"
  argifyArgs :: "stringOrList option \<Rightarrow> stringOrList option \<Rightarrow> string list"
  argifyImportMap :: "string option \<Rightarrow> string list"
  argifyUnstable :: "bool option \<Rightarrow> string list"
  toArgsStringList :: "stringOrList \<Rightarrow> string list"
  loadEnvFromFile :: "string \<Rightarrow> envMap loaded"
  loadEnvFromObject :: "envObject \<Rightarrow> envMap"

text \<open>
  What the runtime gives: \<open>Deno.args\<close>, the file system as seen by \<open>exists\<close> and
  \<open>existsSync\<close>, the batches of changes the \<open>Watcher\<close> yields before its iteration
  ends, and the way a child started with a given command ends: it exits with a code, or a
  signal ends it.
\<close>

record Change =
  path :: string
  event :: string

datatype childExit = Exited nat | Signaled nat

record World =
  denoArgv :: "string list"
  fileExists :: "string \<Rightarrow> bool"
  watcherBatches :: "Change list list"
  childExit :: "string list \<Rightarrow> childExit"

text \<open>
  \<open>process.status()\<close>. The workflow of the repository runs Deno v1.0.2, where
  \<open>Deno.ProcessStatus\<close> is the union of \<open>{ success: true; code: 0 }\<close> and
  \<open>{ success: false; code: number; signal?: number }\<close>, and where the runtime makes the
  status of a child from the way it ended: a child ended by signal \<open>n\<close> has the code
  \<open>128 + n\<close> and the signal, a child that exited with a code other than 0 has that
  code, and a child that exited with 0 has succeeded. Every status has a code.
\<close>

datatype ProcessStatus = StatusSuccess | StatusFailure int "int option"

fun success :: "ProcessStatus \<Rightarrow> bool" where
  "success StatusSuccess = True"
| "success (StatusFailure c sg) = False"

fun code :: "ProcessStatus \<Rightarrow> int" where
  "code StatusSuccess = 0"
| "code (StatusFailure c sg) = c"

fun runStatus :: "childExit \<Rightarrow> ProcessStatus" where
  "runStatus (Signaled sg) = StatusFailure (128 + int sg) (Some (int sg))"
| "runStatus (Exited n) = (if n \<noteq> 0 then StatusFailure (int n) None else StatusSuccess)"

definition childStatus :: "World \<Rightarrow> string list \<Rightarrow> ProcessStatus" where
  "childStatus w cmd = runStatus (childExit w cmd)"

section \<open>What a run of Scripts does\<close>

text \<open>
  The effects of a run, in order, and the way it ends. \<open>WatcherCreated\<close> is
  \<open>new Watcher(paths, config)\<close>, \<open>Spawn\<close> is \<open>Deno.run\<close> with its command, its
  environment and whether the three standard streams are given as \<open>"inherit"\<close>.
\<close>

record WatcherConfig =
  wInterval :: "int option"
  wRecursive :: "bool option"
  wExts :: "string list option"
  wMatch :: "string list option"
  wSkip :: "string list option"

datatype effect =
    Log string
  | Debug string
  | DebugCmd string "envMap option"
  | WatcherCreated "string list" WatcherConfig
  | Spawn "string list" "envMap option" bool

text \<open>
  Modelled from the spec: \<open>fail\<close> of \<open>log.ts\<close>, which is not part of the sources at
  hand. A fatal error prints its one-line message to the error stream and terminates the
  orchestrator at once with a non-zero code: \<open>Fatal msg\<close>. \<open>Exit c\<close> is
  \<open>Deno.exit\<close> with code \<open>c\<close>, \<open>Threw\<close> an exception of \<open>loadEnvFromFile\<close> that
  nothing catches, \<open>Return\<close> the normal end of \<open>Scripts\<close>.
\<close>

datatype outcome = Fatal string | Exit int | Threw | Return

fun exitsNonZero :: "outcome \<Rightarrow> bool" where
  "exitsNonZero (Fatal msg) = True"
| "exitsNonZero (Exit c) = (c \<noteq> 0)"
| "exitsNonZero Threw = True"
| "exitsNonZero Return = False"

text \<open>
  The objects passed to \<open>Scripts\<close> are mutable, so a run returns them as they are when
  it ends, next to its effects and its outcome.
\<close>

record Result =
  effects :: "effect list"
  outcome :: outcome
  configAfter :: "string \<rightharpoonup> Script"
  globalAfter :: GlobalConfig

section \<open>JavaScript operators\<close>

text \<open>\<open>a ?? b\<close>, and the truth value of each kind of value a condition tests.\<close>

definition nullish :: "'a option \<Rightarrow> 'a option \<Rightarrow> 'a option" where
  "nullish a b = (case a of Some v \<Rightarrow> Some v | None \<Rightarrow> b)"

fun envFileTruthy :: "envFileValue option \<Rightarrow> bool" where
  "envFileTruthy None = False"
| "envFileTruthy (Some (EnvFileBool b)) = b"
| "envFileTruthy (Some (EnvFilePath p)) = (p \<noteq> [])"

fun watchTruthy :: "watchValue option \<Rightarrow> bool" where
  "watchTruthy None = False"
| "watchTruthy (Some (WatchBool b)) = b"
| "watchTruthy (Some (WatchObject opts)) = True"

fun stringOrListTruthy :: "stringOrList option \<Rightarrow> bool" where
  "stringOrListTruthy None = False"
| "stringOrListTruthy (Some (Str s)) = (s \<noteq> [])"
| "stringOrListTruthy (Some (StrList xs)) = True"

fun stringTruthy :: "string option \<Rightarrow> bool" where
  "stringTruthy None = False"
| "stringTruthy (Some s) = (s \<noteq> [])"

text \<open>\<open>xs.join(" ")\<close>, and a number in a template literal (a length, so a natural
  number, in decimal).\<close>

fun joinSpace :: "string list \<Rightarrow> string" where
  "joinSpace [] = []"
| "joinSpace [x] = x"
| "joinSpace (x # y # ys) = x @ '' '' @ joinSpace (y # ys)"

definition digit :: "nat \<Rightarrow> char" where
  "digit d = ''0123456789'' ! d"

fun showNat :: "nat \<Rightarrow> string" where
  "showNat n = (if n < 10 then [digit n] else showNat (n div 10) @ [digit (n mod 10)])"

declare showNat.simps [simp del]

text \<open>
  \<open>config[scriptArg]\<close>. The configuration is written as an object literal
  (\<open>Scripts({ foo: {...}, bar: {...} })\<close>, as the scaffold of cli.ts does), so the read
  finds the declared scripts first and then the members every object inherits from
  \<open>Object.prototype\<close>; under Deno \<open>__proto__\<close> is not one of them. An inherited
  member is a function that is not \<open>null\<close> and has no property named as a field of a
  script: each field read on it is \<open>undefined\<close>.
\<close>

definition objectPrototypeKeys :: "string list" where
  "objectPrototypeKeys =
     [''constructor'', ''__defineGetter__'', ''__defineSetter__'', ''hasOwnProperty'',
      ''__lookupGetter__'', ''__lookupSetter__'', ''isPrototypeOf'',
      ''propertyIsEnumerable'', ''toString'', ''valueOf'', ''toLocaleString'']"

definition inheritedMember :: Script where
  "inheritedMember = \<lparr> envFile = None, env = None, args = None, watch = None,
     permissions = None, tsconfig = None, denoArgs = None, file = None, run = None \<rparr>"

definition getProperty :: "(string \<rightharpoonup> Script) \<Rightarrow> string \<Rightarrow> Script option" where
  "getProperty config k =
     (case config k of
        Some s \<Rightarrow> Some s
      | None \<Rightarrow> if k \<in> set objectPrototypeKeys then Some inheritedMember else None)"

section \<open>mod.ts\<close>

text \<open>\<open>defaultCommonArgs\<close> writes to its second argument: the model returns the
  object as it is after the call.\<close>

definition defaultCommonArgs :: "World \<Rightarrow> Script \<Rightarrow> GlobalConfig \<Rightarrow> GlobalConfig" where
  "defaultCommonArgs w local global =
     (if envFile global = None
      then (if fileExists w ''.env'' then global\<lparr>envFile := Some (EnvFileBool True)\<rparr>
            else global)
      else global)"

text \<open>Lines 146 to 168 of \<open>Scripts\<close>: the environment of the child, \<open>None\<close> for
  \<open>undefined\<close>. \<open>defaultEmptyObject\<close> is the empty object.\<close>

definition orEmpty :: "envMap option \<Rightarrow> envMap" where
  "orEmpty e = (case e of None \<Rightarrow> Map.empty | Some m \<Rightarrow> m)"

definition envFilePath :: "envFileValue option \<Rightarrow> string" where
  "envFilePath ef = (case ef of Some (EnvFilePath p) \<Rightarrow> p | _ \<Rightarrow> ''.env'')"

definition envFromFile :: "Lib \<Rightarrow> envFileValue option \<Rightarrow> envMap option loaded" where
  "envFromFile lib ef =
     (if envFileTruthy ef
      then (case loadEnvFromFile lib (envFilePath ef) of
              LoadError \<Rightarrow> LoadError
            | Loaded m \<Rightarrow> Loaded (Some m))
      else Loaded None)"

definition addEnvObject :: "Lib \<Rightarrow> envObject option \<Rightarrow> envMap option \<Rightarrow> envMap option" where
  "addEnvObject lib obj e =
     (case obj of
        None \<Rightarrow> e
      | Some ob \<Rightarrow> Some (orEmpty e ++ loadEnvFromObject lib ob))"

definition buildEnv :: "Lib \<Rightarrow> Script \<Rightarrow> GlobalConfig \<Rightarrow> envMap option loaded" where
  "buildEnv lib script globalConfig =
     (case envFromFile lib (nullish (envFile script) (envFile globalConfig)) of
        LoadError \<Rightarrow> LoadError
      | Loaded e \<Rightarrow>
          Loaded (addEnvObject lib (env script) (addEnvObject lib (env globalConfig) e)))"

text \<open>Lines 170 to 179: watch mode and the merged watch options.\<close>

definition watchModeEnabled :: "Script \<Rightarrow> GlobalConfig \<Rightarrow> bool" where
  "watchModeEnabled script globalConfig = watchTruthy (nullish (watch script) (watch globalConfig))"

definition emptyWatchOptions :: WatchOptions where
  "emptyWatchOptions = \<lparr> paths = Absent, matchGlobs = Absent, skip = Absent,
     extensions = Absent, interval = Absent, recursive = Absent \<rparr>"

definition objectOr :: "watchValue option \<Rightarrow> WatchOptions" where
  "objectOr v = (case v of Some (WatchObject opts) \<Rightarrow> opts | _ \<Rightarrow> emptyWatchOptions)"

text \<open>
  \<open>{ ...a, ...b }\<close> is a new object into which the own properties of \<open>a\<close> are copied,
  then those of \<open>b\<close>: a property of the source replaces the one of the target, whatever
  its value, and a property the source does not have leaves the target as it is.
\<close>

definition copyProp :: "'a property \<Rightarrow> 'a property \<Rightarrow> 'a property" where
  "copyProp target source = (case source of Absent \<Rightarrow> target | Undefined \<Rightarrow> Undefined
     | Value v \<Rightarrow> Value v)"

definition spreadInto :: "WatchOptions \<Rightarrow> WatchOptions \<Rightarrow> WatchOptions" where
  "spreadInto target source =
     \<lparr> paths = copyProp (paths target) (paths source),
       matchGlobs = copyProp (matchGlobs target) (matchGlobs source),
       skip = copyProp (skip target) (skip source),
       extensions = copyProp (extensions target) (extensions source),
       interval = copyProp (interval target) (interval source),
       recursive = copyProp (recursive target) (recursive source) \<rparr>"

definition watchOptions :: "Script \<Rightarrow> GlobalConfig \<Rightarrow> WatchOptions" where
  "watchOptions script globalConfig =
     spreadInto (spreadInto emptyWatchOptions (objectOr (watch globalConfig)))
       (objectOr (watch script))"

text \<open>The value a read of a property gives.\<close>

definition propValue :: "'a property \<Rightarrow> 'a option" where
  "propValue p = (case p of Value v \<Rightarrow> Some v | _ \<Rightarrow> None)"

text \<open>Lines 186 to 207: the watcher and the loop over the batches it yields.\<close>

definition watcherPaths :: "string \<Rightarrow> WatchOptions \<Rightarrow> string list" where
  "watcherPaths f opts = f # (case propValue (paths opts) of None \<Rightarrow> [] | Some ps \<Rightarrow> ps)"

definition watcherConfig :: "WatchOptions \<Rightarrow> WatcherConfig" where
  "watcherConfig opts =
     \<lparr> wInterval = propValue (interval opts), wRecursive = propValue (recursive opts),
       wExts = propValue (extensions opts), wMatch = propValue (matchGlobs opts),
       wSkip = propValue (skip opts) \<rparr>"

definition detectedMessage :: "nat \<Rightarrow> string" where
  "detectedMessage n =
     ''Detected '' @ showNat n @ '' change'' @ (if n > 1 then ''s'' else '''') @ ''. Rerunning...''"

definition changeMessage :: "Change \<Rightarrow> string" where
  "changeMessage c = ''File '' @ [CHR 0x22] @ path c @ [CHR 0x22] @ '' was '' @ event c"

fun watchLoop :: "Change list list \<Rightarrow> effect list" where
  "watchLoop [] = []"
| "watchLoop (changes # rest) =
     Log (detectedMessage (length changes)) # map (\<lambda>c. Debug (changeMessage c)) changes
       @ watchLoop rest"

text \<open>Lines 209 to 220 and 238 to 242: the two command lines.\<close>

definition fileCmd :: "Lib \<Rightarrow> Script \<Rightarrow> GlobalConfig \<Rightarrow> string \<Rightarrow> string list \<Rightarrow> string list" where
  "fileCmd lib script globalConfig f restArg =
     [''deno'', ''run'']
     @ argifyPermissions lib (permissions script) (permissions globalConfig)
     @ argifyTsconfig lib (tsconfig script) (tsconfig globalConfig)
     @ argifyArgs lib (denoArgs script) (denoArgs globalConfig)
     @ argifyImportMap lib (importMap globalConfig)
     @ argifyUnstable lib (unstable globalConfig)
     @ [f]
     @ argifyArgs lib (args script) (args globalConfig)
     @ restArg"

definition runCmd :: "Lib \<Rightarrow> Script \<Rightarrow> GlobalConfig \<Rightarrow> stringOrList \<Rightarrow> string list \<Rightarrow> string list" where
  "runCmd lib script globalConfig r restArg =
     toArgsStringList lib r
     @ argifyArgs lib (args script) (args globalConfig)
     @ restArg"

definition debugCmd :: "GlobalConfig \<Rightarrow> string list \<Rightarrow> envMap option \<Rightarrow> effect list" where
  "debugCmd globalConfig cmd e =
     (if debug globalConfig = Some True then [DebugCmd (joinSpace cmd) e] else [])"

text \<open>\<open>Deno.run\<close>, the debug line before it, and \<open>Deno.exit\<close> with the code of the
  status.\<close>

definition launch :: "World \<Rightarrow> GlobalConfig \<Rightarrow> string list \<Rightarrow> envMap option \<Rightarrow> bool
    \<Rightarrow> effect list \<times> outcome" where
  "launch w globalConfig cmd e inherit =
     (debugCmd globalConfig cmd e @ [Spawn cmd e inherit], Exit (code (childStatus w cmd)))"

definition finish :: "(string \<rightharpoonup> Script) \<Rightarrow> GlobalConfig \<Rightarrow> effect list \<times> outcome \<Rightarrow> Result" where
  "finish config globalConfig eo =
     \<lparr> effects = fst eo, outcome = snd eo, configAfter = config, globalAfter = globalConfig \<rparr>"

definition notFoundMessage :: "string \<Rightarrow> string" where
  "notFoundMessage scriptArg = ''script '' @ [CHR 0x22] @ scriptArg @ [CHR 0x22] @ '' not found!''"

definition fileMissingMessage :: "string \<Rightarrow> string" where
  "fileMissingMessage f = ''File '' @ f @ '' not found!''"

text \<open>Lines 170 to 257, once the environment is built.\<close>

definition execute :: "Lib \<Rightarrow> World \<Rightarrow> Script \<Rightarrow> GlobalConfig \<Rightarrow> string list \<Rightarrow> envMap option
    \<Rightarrow> effect list \<times> outcome" where
  "execute lib w script globalConfig restArg e =
     (let enabled = watchModeEnabled script globalConfig;
          logged = (if enabled then [Log ''Watch mode enabled.''] else []);
          opts = watchOptions script globalConfig
      in if stringTruthy (file script)
         then (let f = the (file script)
               in if \<not> fileExists w f then (logged, Fatal (fileMissingMessage f))
                  else if enabled
                  then (logged @ [WatcherCreated (watcherPaths f opts) (watcherConfig opts)]
                          @ watchLoop (watcherBatches w), Return)
                  else (let r = launch w globalConfig
                                  (fileCmd lib script globalConfig f restArg) e True
                        in (logged @ fst r, snd r)))
         else if stringOrListTruthy (run script)
         then (let r = launch w globalConfig
                         (runCmd lib script globalConfig (the (run script)) restArg) e False
               in (logged @ fst r, snd r))
         else (logged, Fatal ''Script not found!''))"

definition Scripts :: "Lib \<Rightarrow> World \<Rightarrow> (string \<rightharpoonup> Script) \<Rightarrow> GlobalConfig \<Rightarrow> Result" where
  "Scripts lib w config globalConfig =
     (case denoArgv w of
        [] \<Rightarrow> finish config globalConfig ([], Fatal ''Specify a script to be executed!'')
      | scriptArg # restArg \<Rightarrow>
          if scriptArg = []
          then finish config globalConfig ([], Fatal ''Specify a script to be executed!'')
          else (case getProperty config scriptArg of
                  None \<Rightarrow> finish config globalConfig ([], Fatal (notFoundMessage scriptArg))
                | Some script \<Rightarrow>
                    (let global' = defaultCommonArgs w script globalConfig
                     in case buildEnv lib script global' of
                          LoadError \<Rightarrow> finish config global' ([], Threw)
                        | Loaded e \<Rightarrow>
                            finish config global' (execute lib w script global' restArg e))))"

section \<open>The helpers of lib, as the specification describes them\<close>

text \<open>
  Modelled from the spec: \<open>toArgsStringList\<close> of \<open>lib/utils.ts\<close>, which is not part
  of the sources at hand. "\<open>tokens(run)\<close> splits a scalar command string into
  whitespace-delimited tokens or uses the value directly if already an ordered sequence."
\<close>

definition isSpace :: "char \<Rightarrow> bool" where
  "isSpace c = (c = CHR '' '' \<or> c = CHR 0x09 \<or> c = CHR 0x0A \<or> c = CHR 0x0D)"

fun tokensFrom :: "string \<Rightarrow> string \<Rightarrow> string list" where
  "tokensFrom cur [] = (if cur = [] then [] else [cur])"
| "tokensFrom cur (c # cs) =
     (if isSpace c then (if cur = [] then tokensFrom [] cs else cur # tokensFrom [] cs)
      else tokensFrom (cur @ [c]) cs)"

definition tokens :: "string \<Rightarrow> string list" where
  "tokens s = tokensFrom [] s"

definition specToArgsStringList :: "stringOrList \<Rightarrow> string list" where
  "specToArgsStringList v = (case v of Str s \<Rightarrow> tokens s | StrList xs \<Rightarrow> xs)"

text \<open>
  The specification names the flags a field gives rise to (permission flags, tsconfig flag,
  import-map flag, unstable flag) and leaves their spelling open, as it leaves open
  whether a scalar \<open>args\<close> or \<open>denoArgs\<close> is split. The spelling is a parameter.
\<close>

record Rendering =
  permissionFlags :: "Permissions \<Rightarrow> string list"
  tsconfigFlag :: "string \<Rightarrow> string list"
  importMapFlag :: "string \<Rightarrow> string list"
  unstableFlag :: "string list"
  argTokens :: "stringOrList \<Rightarrow> string list"

text \<open>
  Modelled from the spec: \<open>argifyPermissions\<close> of \<open>lib/permissions.ts\<close> and
  \<open>argifyTsconfig\<close>, \<open>argifyArgs\<close>, \<open>argifyImportMap\<close>, \<open>argifyUnstable\<close> of
  \<open>lib/args.ts\<close>, which are not part of the sources at hand. "Script-level value wins if
  present and non-undefined; otherwise fall back to global-level value; otherwise [...]
  empty/absent"; "every other field is a simple override, not a merge"; "flag-emitting
  helpers are pure functions of (local, global) value pairs and emit zero tokens when both
  are unset".
\<close>

definition specArgifyPermissions :: "Rendering \<Rightarrow> Permissions option \<Rightarrow> Permissions option
    \<Rightarrow> string list" where
  "specArgifyPermissions rd l g =
     (case nullish l g of None \<Rightarrow> [] | Some p \<Rightarrow> permissionFlags rd p)"

definition specArgifyTsconfig :: "Rendering \<Rightarrow> string option \<Rightarrow> string option \<Rightarrow> string list" where
  "specArgifyTsconfig rd l g =
     (case nullish l g of None \<Rightarrow> [] | Some p \<Rightarrow> tsconfigFlag rd p)"

definition specArgifyArgs :: "Rendering \<Rightarrow> stringOrList option \<Rightarrow> stringOrList option
    \<Rightarrow> string list" where
  "specArgifyArgs rd l g =
     (case nullish l g of None \<Rightarrow> [] | Some a \<Rightarrow> argTokens rd a)"

definition specArgifyImportMap :: "Rendering \<Rightarrow> string option \<Rightarrow> string list" where
  "specArgifyImportMap rd g = (case g of None \<Rightarrow> [] | Some p \<Rightarrow> importMapFlag rd p)"

definition specArgifyUnstable :: "Rendering \<Rightarrow> bool option \<Rightarrow> string list" where
  "specArgifyUnstable rd g = (if g = Some True then unstableFlag rd else [])"

definition specLib :: "Rendering \<Rightarrow> (string \<Rightarrow> envMap loaded) \<Rightarrow> (envObject \<Rightarrow> envMap) \<Rightarrow> Lib" where
  "specLib rd loadFile loadObject =
     \<lparr> argifyPermissions = specArgifyPermissions rd,
       argifyTsconfig = specArgifyTsconfig rd,
       argifyArgs = specArgifyArgs rd,
       argifyImportMap = specArgifyImportMap rd,
       argifyUnstable = specArgifyUnstable rd,
       toArgsStringList = specToArgsStringList,
       loadEnvFromFile = loadFile,
       loadEnvFromObject = loadObject \<rparr>"

text \<open>
  The order of precedence as the specification words it, to compare the code with:
  "script-level value wins if present and non-undefined; otherwise fall back to
  global-level value; otherwise a documented default".
\<close>

definition specPrecedence :: "'a option \<Rightarrow> 'a option \<Rightarrow> 'a option \<Rightarrow> 'a option" where
  "specPrecedence scriptLevel globalLevel dflt =
     (case scriptLevel of
        Some v \<Rightarrow> Some v
      | None \<Rightarrow> (case globalLevel of Some v \<Rightarrow> Some v | None \<Rightarrow> dflt))"

text \<open>
  The union of two objects key by key, as the specification words it: "shallow key
  union, script keys override global keys on conflict". A key of the union is the key of
  the script where the script has it, else the key of the global object.
\<close>

definition specKeyUnion :: "'a property \<Rightarrow> 'a property \<Rightarrow> 'a property" where
  "specKeyUnion scriptKey globalKey = (if scriptKey = Absent then globalKey else scriptKey)"

definition specUnion :: "WatchOptions \<Rightarrow> WatchOptions \<Rightarrow> WatchOptions" where
  "specUnion scriptObject globalObject =
     \<lparr> paths = specKeyUnion (paths scriptObject) (paths globalObject),
       matchGlobs = specKeyUnion (matchGlobs scriptObject) (matchGlobs globalObject),
       skip = specKeyUnion (skip scriptObject) (skip globalObject),
       extensions = specKeyUnion (extensions scriptObject) (extensions globalObject),
       interval = specKeyUnion (interval scriptObject) (interval globalObject),
       recursive = specKeyUnion (recursive scriptObject) (recursive globalObject) \<rparr>"

section \<open>Reading a run\<close>

fun isSpawn :: "effect \<Rightarrow> bool" where
  "isSpawn (Spawn cmd e inherit) = True"
| "isSpawn ev = False"

fun isWatcherCreated :: "effect \<Rightarrow> bool" where
  "isWatcherCreated (WatcherCreated ps cfg) = True"
| "isWatcherCreated ev = False"

text \<open>The effects of the launcher (lines 181 to 257): the command shown in debug mode, the
  watcher, the child process.\<close>

fun isLaunch :: "effect \<Rightarrow> bool" where
  "isLaunch (DebugCmd cmd e) = True"
| "isLaunch (WatcherCreated ps cfg) = True"
| "isLaunch (Spawn cmd e inherit) = True"
| "isLaunch ev = False"

text \<open>What a run does before its launcher acts.\<close>

definition beforeLaunch :: "effect list \<Rightarrow> effect list" where
  "beforeLaunch evs = takeWhile (\<lambda>ev. \<not> isLaunch ev) evs"

text \<open>The script a run selects, if it selects one: the first argument is not empty and
  \<open>config[scriptArg]\<close> is not \<open>null\<close>.\<close>

definition selected :: "World \<Rightarrow> (string \<rightharpoonup> Script) \<Rightarrow> Script option" where
  "selected w config =
     (case denoArgv w of
        [] \<Rightarrow> None
      | scriptArg # restArg \<Rightarrow> if scriptArg = [] then None else getProperty config scriptArg)"

text \<open>The value of \<open>envFile\<close> line 146 reads, after \<open>defaultCommonArgs\<close>.\<close>

definition resolvedEnvFile :: "World \<Rightarrow> Script \<Rightarrow> GlobalConfig \<Rightarrow> envFileValue option" where
  "resolvedEnvFile w script globalConfig =
     nullish (envFile script) (envFile (defaultCommonArgs w script globalConfig))"

section \<open>Example configurations\<close>

definition noScript :: Script where
  "noScript = inheritedMember"

definition noGlobal :: GlobalConfig where
  "noGlobal = \<lparr> envFile = None, env = None, args = None, watch = None,
     permissions = None, tsconfig = None, denoArgs = None,
     debug = None, importMap = None, unstable = None \<rparr>"

definition noPermissions :: Permissions where
  "noPermissions = \<lparr> allowAll = None, allowEnv = None, allowHRTime = None, allowNet = None,
     allowPlugin = None, allowRead = None, allowRun = None, allowWrite = None \<rparr>"

definition exRendering :: Rendering where
  "exRendering =
     \<lparr> permissionFlags = (\<lambda>p. if allowAll p = Some True then [''-A''] else []),
       tsconfigFlag = (\<lambda>p. [''-c'', p]),
       importMapFlag = (\<lambda>p. [''--importmap='' @ p]),
       unstableFlag = [''--unstable''],
       argTokens = specToArgsStringList \<rparr>"

definition showScalar :: "scalar \<Rightarrow> string" where
  "showScalar v =
     (case v of
        ScalarStr s \<Rightarrow> s
      | ScalarNum n \<Rightarrow> (if n < 0 then ''-'' else []) @ showNat (nat (abs n))
      | ScalarBool b \<Rightarrow> (if b then ''true'' else ''false''))"

definition exLoadObject :: "envObject \<Rightarrow> envMap" where
  "exLoadObject ob = map_of (rev (map (\<lambda>(k, v). (k, showScalar v)) ob))"

definition exLoadFile :: "string \<Rightarrow> envMap loaded" where
  "exLoadFile p =
     (if p = ''.env'' then Loaded [''A'' \<mapsto> ''1'', ''C'' \<mapsto> ''3''] else LoadError)"

definition exLib :: Lib where
  "exLib = specLib exRendering exLoadFile exLoadObject"

definition exWorld :: "string list \<Rightarrow> string list \<Rightarrow> World" where
  "exWorld argv files =
     \<lparr> denoArgv = argv,
       fileExists = (\<lambda>p. p \<in> set files),
       watcherBatches = [[\<lparr> path = ''./mod.ts'', event = ''modify'' \<rparr>]],
       childExit = (\<lambda>cmd. if ''--fail'' \<in> set cmd then Exited 3
                        else if ''--kill'' \<in> set cmd then Signaled 9 else Exited 0) \<rparr>"

definition echoScript :: Script where
  "echoScript = noScript\<lparr> run := Some (Str ''echo hello'') \<rparr>"

definition modScript :: Script where
  "modScript = noScript\<lparr> file := Some ''./mod.ts'' \<rparr>"

definition fullGlobal :: GlobalConfig where
  "fullGlobal = noGlobal\<lparr> permissions := Some (noPermissions\<lparr> allowAll := Some True \<rparr>),
     tsconfig := Some ''tsconfig.json'', denoArgs := Some (Str ''-L info''),
     importMap := Some ''map.json'', unstable := Some True,
     args := Some (StrList [''a b'']) \<rparr>"

definition watchScript :: Script where
  "watchScript = modScript\<lparr>
     watch := Some (WatchObject
       (emptyWatchOptions\<lparr> paths := Value [''src''], skip := Undefined \<rparr>)),
     env := Some [(''A'', ScalarStr ''script'')] \<rparr>"

definition watchGlobal :: GlobalConfig where
  "watchGlobal = noGlobal\<lparr>
     watch := Some (WatchObject
       (emptyWatchOptions\<lparr> paths := Value [''lib''], skip := Value [''tmp''],
          interval := Value 500 \<rparr>)),
     env := Some [(''A'', ScalarStr ''global''), (''B'', ScalarNum 2)] \<rparr>"

definition tunedScript :: Script where
  "tunedScript = modScript\<lparr>
     permissions := Some (noPermissions\<lparr> allowAll := Some False \<rparr>),
     tsconfig := Some ''tsconfig.dev.json'',
     denoArgs := Some (StrList [''--reload'']),
     args := Some (Str ''one two'') \<rparr>"

definition exConfig :: "string \<rightharpoonup> Script" where
  "exConfig = [''echo'' \<mapsto> echoScript, ''mod'' \<mapsto> modScript,
     ''dev'' \<mapsto> modScript\<lparr> watch := Some (WatchBool True) \<rparr>,
     ''serve'' \<mapsto> echoScript\<lparr> watch := Some (WatchBool True) \<rparr>]"

section \<open>The control flow of Scripts\<close>

lemma defaultCommonArgs_fields [simp]:
  "env (defaultCommonArgs w s g) = env g"
  "args (defaultCommonArgs w s g) = args g"
  "watch (defaultCommonArgs w s g) = watch g"
  "permissions (defaultCommonArgs w s g) = permissions g"
  "tsconfig (defaultCommonArgs w s g) = tsconfig g"
  "denoArgs (defaultCommonArgs w s g) = denoArgs g"
  "debug (defaultCommonArgs w s g) = debug g"
  "importMap (defaultCommonArgs w s g) = importMap g"
  "unstable (defaultCommonArgs w s g) = unstable g"
  by (simp_all add: defaultCommonArgs_def)

lemma envFile_defaultCommonArgs:
  "envFile (defaultCommonArgs w s g) =
     (case envFile g of
        Some v \<Rightarrow> Some v
      | None \<Rightarrow> if fileExists w ''.env'' then Some (EnvFileBool True) else None)"
  by (simp add: defaultCommonArgs_def split: option.splits)

lemma execute_default:
  "execute lib w s (defaultCommonArgs w s g) restArg e = execute lib w s g restArg e"
  by (simp add: execute_def watchModeEnabled_def watchOptions_def launch_def fileCmd_def
      runCmd_def debugCmd_def Let_def)

lemma Scripts_found:
  assumes "denoArgv w = name # restArg" and "name \<noteq> []"
    and "getProperty config name = Some s"
    and "buildEnv lib s (defaultCommonArgs w s g) = Loaded e"
  shows "Scripts lib w config g =
           finish config (defaultCommonArgs w s g) (execute lib w s g restArg e)"
  using assms by (simp add: Scripts_def execute_default)

lemma Scripts_load_error:
  assumes "denoArgv w = name # restArg" and "name \<noteq> []"
    and "getProperty config name = Some s"
    and "buildEnv lib s (defaultCommonArgs w s g) = LoadError"
  shows "Scripts lib w config g = finish config (defaultCommonArgs w s g) ([], Threw)"
  using assms by (simp add: Scripts_def)

lemma execute_run:
  assumes "\<not> stringTruthy (file s)" and "run s = Some r" and "stringOrListTruthy (Some r)"
  shows "execute lib w s g restArg e =
           ((if watchModeEnabled s g then [Log ''Watch mode enabled.''] else [])
              @ debugCmd g (runCmd lib s g r restArg) e
              @ [Spawn (runCmd lib s g r restArg) e False],
            Exit (code (childStatus w (runCmd lib s g r restArg))))"
  using assms by (simp add: execute_def launch_def Let_def)

lemma execute_file_missing:
  assumes "file s = Some f" and "f \<noteq> []" and "\<not> fileExists w f"
  shows "execute lib w s g restArg e =
           ((if watchModeEnabled s g then [Log ''Watch mode enabled.''] else []),
            Fatal (fileMissingMessage f))"
  using assms by (simp add: execute_def Let_def)

lemma execute_file_oneshot:
  assumes "file s = Some f" and "f \<noteq> []" and "fileExists w f" and "\<not> watchModeEnabled s g"
  shows "execute lib w s g restArg e =
           (debugCmd g (fileCmd lib s g f restArg) e @ [Spawn (fileCmd lib s g f restArg) e True],
            Exit (code (childStatus w (fileCmd lib s g f restArg))))"
  using assms by (simp add: execute_def launch_def Let_def)

lemma execute_file_watch:
  assumes "file s = Some f" and "f \<noteq> []" and "fileExists w f" and "watchModeEnabled s g"
  shows "execute lib w s g restArg e =
           (Log ''Watch mode enabled.''
              # WatcherCreated (watcherPaths f (watchOptions s g)) (watcherConfig (watchOptions s g))
              # watchLoop (watcherBatches w),
            Return)"
  using assms by (simp add: execute_def Let_def)

lemma execute_no_target:
  assumes "\<not> stringTruthy (file s)" and "\<not> stringOrListTruthy (run s)"
  shows "execute lib w s g restArg e =
           ((if watchModeEnabled s g then [Log ''Watch mode enabled.''] else []),
            Fatal ''Script not found!'')"
  using assms by (simp add: execute_def Let_def)

lemma watchLoop_no_spawn: "\<not> list_ex isSpawn (watchLoop bs)"
  by (induction bs) (auto simp: list_ex_iff)

lemma execute_spawn:
  assumes "Spawn cmd e' inh \<in> set (fst (execute lib w s g restArg e))"
  shows "snd (execute lib w s g restArg e) = Exit (code (childStatus w cmd))"
proof -
  have nw: "Spawn cmd e' inh \<notin> set (watchLoop bs)" for bs
    using watchLoop_no_spawn [of bs] by (auto simp: list_ex_iff)
  show ?thesis
    using assms nw
    by (auto simp: execute_def launch_def Let_def debugCmd_def split: if_splits)
qed

lemmas ex_defs = exLib_def exLoadFile_def specLib_def exWorld_def exConfig_def echoScript_def modScript_def
  noScript_def inheritedMember_def noGlobal_def exRendering_def exLoadObject_def fullGlobal_def
  noPermissions_def watchScript_def watchGlobal_def showScalar_def tunedScript_def
lemmas run_defs = Scripts_def getProperty_def objectPrototypeKeys_def defaultCommonArgs_def
  buildEnv_def envFromFile_def envFilePath_def addEnvObject_def orEmpty_def nullish_def finish_def execute_def
  watchModeEnabled_def watchOptions_def spreadInto_def copyProp_def propValue_def objectOr_def
  emptyWatchOptions_def childStatus_def
  watcherPaths_def watcherConfig_def detectedMessage_def changeMessage_def launch_def
  debugCmd_def fileCmd_def runCmd_def notFoundMessage_def fileMissingMessage_def
lemmas spec_defs = specArgifyPermissions_def specArgifyTsconfig_def specArgifyArgs_def
  specArgifyImportMap_def specArgifyUnstable_def specToArgsStringList_def tokens_def isSpace_def

lemma filter_spawn_debugCmd [simp]: "filter isSpawn (debugCmd g cmd e) = []"
  by (simp add: debugCmd_def)

lemma filter_spawn_watchLoop [simp]: "filter isSpawn (watchLoop bs) = []"
  by (induction bs) (auto simp: filter_empty_conv)

lemma watch_mode_never_spawns:
  assumes "denoArgv w = name # restArg" and "name \<noteq> []" and "config name = Some s"
    and "file s = Some f" and "f \<noteq> []" and "watchModeEnabled s g"
  shows "filter isSpawn (effects (Scripts lib w config g)) = []"
proof (cases "buildEnv lib s (defaultCommonArgs w s g)")
  case LoadError
  then show ?thesis
    using Scripts_load_error [OF assms(1,2) _ LoadError] assms(3)
    by (simp add: finish_def getProperty_def)
next
  case (Loaded e)
  have found: "Scripts lib w config g =
      finish config (defaultCommonArgs w s g) (execute lib w s g restArg e)"
    using assms(3) by (intro Scripts_found [OF assms(1,2) _ Loaded]) (simp add: getProperty_def)
  show ?thesis
  proof (cases "fileExists w f")
    case True
    then show ?thesis
      using found execute_file_watch [OF assms(4,5) True assms(6)] by (simp add: finish_def)
  next
    case False
    then show ?thesis
      using found execute_file_missing [OF assms(4,5) False] assms(6) by (simp add: finish_def)
  qed
qed

lemma Scripts_declared:
  assumes "denoArgv w = name # restArg" and "name \<noteq> []" and "config name = Some s"
    and "buildEnv lib s (defaultCommonArgs w s g) = Loaded e"
  shows "Scripts lib w config g =
           finish config (defaultCommonArgs w s g) (execute lib w s g restArg e)"
  using assms by (simp add: Scripts_found getProperty_def)

lemma Scripts_declared_load_error:
  assumes "denoArgv w = name # restArg" and "name \<noteq> []" and "config name = Some s"
    and "buildEnv lib s (defaultCommonArgs w s g) = LoadError"
  shows "Scripts lib w config g = finish config (defaultCommonArgs w s g) ([], Threw)"
  using assms by (simp add: Scripts_load_error getProperty_def)

lemma specLib_fields [simp]:
  "argifyPermissions (specLib rd lf lo) = specArgifyPermissions rd"
  "argifyTsconfig (specLib rd lf lo) = specArgifyTsconfig rd"
  "argifyArgs (specLib rd lf lo) = specArgifyArgs rd"
  "argifyImportMap (specLib rd lf lo) = specArgifyImportMap rd"
  "argifyUnstable (specLib rd lf lo) = specArgifyUnstable rd"
  "toArgsStringList (specLib rd lf lo) = specToArgsStringList"
  "loadEnvFromFile (specLib rd lf lo) = lf"
  "loadEnvFromObject (specLib rd lf lo) = lo"
  by (simp_all add: specLib_def)

lemma nullish_specPrecedence: "nullish l g = specPrecedence l g None"
  by (simp add: nullish_def specPrecedence_def split: option.splits)

lemma Scripts_globalAfter:
  "globalAfter (Scripts lib w config g) =
     (case selected w config of None \<Rightarrow> g | Some s \<Rightarrow> defaultCommonArgs w s g)"
  by (simp add: Scripts_def selected_def finish_def Let_def
      split: list.splits option.splits loaded.splits)

lemma Scripts_configAfter: "configAfter (Scripts lib w config g) = config"
  by (simp add: Scripts_def finish_def Let_def split: list.splits option.splits loaded.splits)

lemma resolvedEnvFile_precedence:
  "resolvedEnvFile w s g =
     specPrecedence (envFile s) (envFile g)
       (if fileExists w ''.env'' then Some (EnvFileBool True) else None)"
  by (simp add: resolvedEnvFile_def envFile_defaultCommonArgs nullish_def specPrecedence_def
      split: option.splits)

lemma buildEnv_overlay:
  "buildEnv lib s g =
     (if \<not> envFileTruthy (nullish (envFile s) (envFile g)) \<and> env g = None \<and> env s = None
      then Loaded None
      else (case (if envFileTruthy (nullish (envFile s) (envFile g))
                  then loadEnvFromFile lib (envFilePath (nullish (envFile s) (envFile g)))
                  else Loaded Map.empty) of
              LoadError \<Rightarrow> LoadError
            | Loaded fromFile \<Rightarrow>
                Loaded (Some (fromFile
                  ++ (case env g of None \<Rightarrow> Map.empty | Some ob \<Rightarrow> loadEnvFromObject lib ob)
                  ++ (case env s of None \<Rightarrow> Map.empty | Some ob \<Rightarrow> loadEnvFromObject lib ob)))))"
  by (cases "envFileTruthy (nullish (envFile s) (envFile g))";
      cases "loadEnvFromFile lib (envFilePath (nullish (envFile s) (envFile g)))";
      cases "env g"; cases "env s")
     (simp_all add: buildEnv_def envFromFile_def addEnvObject_def orEmpty_def)

lemma filter_watcher_debugCmd [simp]: "filter isWatcherCreated (debugCmd g cmd e) = []"
  by (simp add: debugCmd_def)

lemma Scripts_unknown_script:
  assumes "denoArgv w = name # restArg" and "name \<noteq> []" and "config name = None"
    and "name \<notin> set objectPrototypeKeys"
  shows "Scripts lib w config g =
           \<lparr> effects = [], outcome = Fatal (notFoundMessage name),
             configAfter = config, globalAfter = g \<rparr>"
  using assms by (simp add: Scripts_def getProperty_def finish_def)

lemma notFoundMessage_names_script: "sublist name (notFoundMessage name)"
  unfolding sublist_def notFoundMessage_def
  by (intro exI [of _ "''script '' @ [CHR 0x22]"] exI [of _ "[CHR 0x22] @ '' not found!''"]) simp

lemma Scripts_no_script_name:
  assumes "denoArgv w = [] \<or> hd (denoArgv w) = []"
  shows "Scripts lib w config g =
           \<lparr> effects = [], outcome = Fatal ''Specify a script to be executed!'',
             configAfter = config, globalAfter = g \<rparr>"
  using assms by (auto simp: Scripts_def finish_def split: list.splits)

lemma watch_update_irrelevant:
  "buildEnv lib (s\<lparr>watch := v\<rparr>) g = buildEnv lib s g"
  "defaultCommonArgs w (s\<lparr>watch := v\<rparr>) g = defaultCommonArgs w s g"
  "runCmd lib (s\<lparr>watch := v\<rparr>) g r restArg = runCmd lib s g r restArg"
  by (simp_all add: buildEnv_def defaultCommonArgs_def runCmd_def split: loaded.splits)

lemma map_add_precedence: "((m ++ gm) ++ sm) k = specPrecedence (sm k) (gm k) (m k)"
  by (simp add: map_add_def specPrecedence_def split: option.splits)

lemma copyProp_union: "copyProp (copyProp Absent globalKey) scriptKey = specKeyUnion scriptKey globalKey"
  by (cases scriptKey; cases globalKey) (simp_all add: copyProp_def specKeyUnion_def)

lemma watchOptions_union:
  "watchOptions s g = specUnion (objectOr (watch s)) (objectOr (watch g))"
  by (simp add: watchOptions_def spreadInto_def specUnion_def emptyWatchOptions_def
      copyProp_union)

lemma beforeLaunch_execute:
  "beforeLaunch (fst (execute lib w s g restArg e)) =
     (if watchModeEnabled s g then [Log ''Watch mode enabled.''] else [])"
  by (simp add: execute_def beforeLaunch_def launch_def debugCmd_def Let_def)

lemma Scripts_beforeLaunch:
  "beforeLaunch (effects (Scripts lib w config g)) =
     (case selected w config of
        None \<Rightarrow> []
      | Some s \<Rightarrow>
          (case buildEnv lib s (defaultCommonArgs w s g) of
             LoadError \<Rightarrow> []
           | Loaded e \<Rightarrow> if watchModeEnabled s g then [Log ''Watch mode enabled.''] else []))"
proof (cases "selected w config")
  case None
  then show ?thesis
    by (auto simp: Scripts_def selected_def finish_def beforeLaunch_def
        split: list.splits if_splits)
next
  case (Some s)
  then obtain name restArg where a: "denoArgv w = name # restArg" "name \<noteq> []"
      "getProperty config name = Some s"
    by (auto simp: selected_def split: list.splits if_splits)
  show ?thesis
  proof (cases "buildEnv lib s (defaultCommonArgs w s g)")
    case LoadError
    then show ?thesis
      using Some Scripts_load_error [OF a LoadError] by (simp add: finish_def beforeLaunch_def)
  next
    case (Loaded e)
    then show ?thesis
      using Some Scripts_found [OF a Loaded] beforeLaunch_execute [of lib w s g restArg e]
      by (simp add: finish_def)
  qed
qed

lemma specUnion_empty [simp]:
  "specUnion a emptyWatchOptions = a" "specUnion emptyWatchOptions b = b"
  by (cases a, simp add: specUnion_def specKeyUnion_def emptyWatchOptions_def)
     (cases b, simp add: specUnion_def specKeyUnion_def emptyWatchOptions_def)

lemma buildEnv_some_env:
  assumes "env s \<noteq> None \<or> env g \<noteq> None"
    and "envFromFile lib (nullish (envFile s) (envFile g)) = Loaded fromFile"
  shows "buildEnv lib s g =
           Loaded (Some ((orEmpty fromFile
             ++ (case env g of None \<Rightarrow> Map.empty | Some ob \<Rightarrow> loadEnvFromObject lib ob))
             ++ (case env s of None \<Rightarrow> Map.empty | Some ob \<Rightarrow> loadEnvFromObject lib ob)))"
  using assms
  by (cases "env s"; cases "env g") (simp_all add: buildEnv_def addEnvObject_def orEmpty_def)

lemma default_envFile_loads_dotenv:
  "envFile echoScript = None \<and> env echoScript = None
   \<and> envFile noGlobal = None \<and> env noGlobal = None
   \<and> effects (Scripts exLib (exWorld [''echo''] [''.env'']) exConfig noGlobal)
       = [Spawn [''echo'', ''hello''] (Some [''A'' \<mapsto> ''1'', ''C'' \<mapsto> ''3'']) False]"
  by (simp add: ex_defs run_defs spec_defs Let_def)

section \<open>The claims\<close>

subsection \<open>Watch mode\<close>

text \<open>
  C1. In watch mode, every batch of changes is said to log the number of changes and to
  trigger one rerun cycle that relaunches the child process. The script \<open>dev\<close> is
  file-backed with \<open>watch: true\<close>, its file exists, and the watcher yields one batch of
  one change. The run logs \<open>Detected 1 change. Rerunning...\<close> and the change itself, and
  starts no child process, neither for the batch nor before it: the body of the loop over
  the batches only logs (\<open>watch_mode_never_spawns\<close> has it for every file-backed
  script in watch mode and every sequence of batches).
\<close>

theorem C1_watch_batch_without_rerun:
  "effects (Scripts exLib (exWorld [''dev''] [''./mod.ts'']) exConfig noGlobal) =
     [Log ''Watch mode enabled.'',
      WatcherCreated [''./mod.ts'']
        \<lparr> wInterval = None, wRecursive = None, wExts = None, wMatch = None, wSkip = None \<rparr>,
      Log ''Detected 1 change. Rerunning...'',
      Debug (''File '' @ [CHR 0x22] @ ''./mod.ts'' @ [CHR 0x22] @ '' was modify'')]
   \<and> outcome (Scripts exLib (exWorld [''dev''] [''./mod.ts'']) exConfig noGlobal) = Return
   \<and> filter isSpawn (effects (Scripts exLib (exWorld [''dev''] [''./mod.ts'']) exConfig noGlobal)) = []"
  by (simp add: ex_defs run_defs showNat.simps digit_def Let_def)

subsection \<open>Resolution of the configuration\<close>

text \<open>
  C2. Each overridable field is resolved by the precedence of the specification. For
  \<open>envFile\<close> (line 146, after \<open>defaultCommonArgs\<close>) the value is that of the script, else
  that of the global configuration, else \<open>true\<close> exactly when \<open>.env\<close> exists. Watch mode
  is on when the \<open>watch\<close> of the script, else that of the global configuration, is truthy.
  The watch options are the key-wise union of the values of \<open>watch\<close> that are objects: when
  both are, a key of the script wins, also one whose value is \<open>undefined\<close>; when one is,
  the options are that object, so a script with \<open>watch: true\<close> runs with the options of a
  global object; when none is, there is no option. When the script or the global
  configuration has an \<open>env\<close>, each name of the child's environment has the value the
  script gives it, else the one the global configuration gives it, else the one from the
  environment file. For \<open>permissions\<close>, \<open>tsconfig\<close>, \<open>denoArgs\<close> and \<open>args\<close>, \<open>Scripts\<close>
  hands the value of the script and that of the global configuration to
  \<open>argifyPermissions\<close>, \<open>argifyTsconfig\<close> and \<open>argifyArgs\<close>, where the precedence is
  decided: with these helpers as modelled from the specification, the child of a file
  script is started with the flags of the script's value, else of the global one, else
  none.
\<close>

theorem C2_field_precedence:
  "resolvedEnvFile w s g =
     specPrecedence (envFile s) (envFile g)
       (if fileExists w ''.env'' then Some (EnvFileBool True) else None)
   \<and> watchModeEnabled s (defaultCommonArgs w s g)
       = watchTruthy (specPrecedence (watch s) (watch g) None)
   \<and> watchOptions s (defaultCommonArgs w s g) =
       (case watch s of
          Some (WatchObject a) \<Rightarrow>
            (case watch g of Some (WatchObject b) \<Rightarrow> specUnion a b | _ \<Rightarrow> a)
        | _ \<Rightarrow>
            (case watch g of Some (WatchObject b) \<Rightarrow> b | _ \<Rightarrow> emptyWatchOptions))
   \<and> (\<forall>fromFile.
         (env s \<noteq> None \<or> env g \<noteq> None)
           \<and> envFromFile lib (resolvedEnvFile w s g) = Loaded fromFile \<longrightarrow>
         (\<exists>m. buildEnv lib s (defaultCommonArgs w s g) = Loaded (Some m)
            \<and> (\<forall>k. m k = specPrecedence
                  (case env s of None \<Rightarrow> None | Some ob \<Rightarrow> loadEnvFromObject lib ob k)
                  (case env g of None \<Rightarrow> None | Some ob \<Rightarrow> loadEnvFromObject lib ob k)
                  (orEmpty fromFile k))))
   \<and> (\<forall>name restArg f e.
         denoArgv w = name # restArg \<and> name \<noteq> [] \<and> config name = Some s
           \<and> file s = Some f \<and> f \<noteq> [] \<and> fileExists w f \<and> \<not> watchModeEnabled s g
           \<and> buildEnv (specLib rd lf lo) s (defaultCommonArgs w s g) = Loaded e \<longrightarrow>
         filter isSpawn (effects (Scripts (specLib rd lf lo) w config g)) =
           [Spawn ([''deno'', ''run'']
              @ (case specPrecedence (permissions s) (permissions g) None of
                   None \<Rightarrow> [] | Some p \<Rightarrow> permissionFlags rd p)
              @ (case specPrecedence (tsconfig s) (tsconfig g) None of
                   None \<Rightarrow> [] | Some p \<Rightarrow> tsconfigFlag rd p)
              @ (case specPrecedence (denoArgs s) (denoArgs g) None of
                   None \<Rightarrow> [] | Some a \<Rightarrow> argTokens rd a)
              @ specArgifyImportMap rd (importMap g)
              @ specArgifyUnstable rd (unstable g)
              @ [f]
              @ (case specPrecedence (args s) (args g) None of
                   None \<Rightarrow> [] | Some a \<Rightarrow> argTokens rd a)
              @ restArg) e True])"
proof (intro conjI allI impI)
  show "resolvedEnvFile w s g =
     specPrecedence (envFile s) (envFile g)
       (if fileExists w ''.env'' then Some (EnvFileBool True) else None)"
    by (rule resolvedEnvFile_precedence)
next
  show "watchModeEnabled s (defaultCommonArgs w s g)
       = watchTruthy (specPrecedence (watch s) (watch g) None)"
    by (simp add: watchModeEnabled_def nullish_specPrecedence)
next
  show "watchOptions s (defaultCommonArgs w s g) =
       (case watch s of
          Some (WatchObject a) \<Rightarrow>
            (case watch g of Some (WatchObject b) \<Rightarrow> specUnion a b | _ \<Rightarrow> a)
        | _ \<Rightarrow>
            (case watch g of Some (WatchObject b) \<Rightarrow> b | _ \<Rightarrow> emptyWatchOptions))"
    by (simp add: watchOptions_union objectOr_def split: option.splits watchValue.splits)
next
  fix fromFile
  assume h: "(env s \<noteq> None \<or> env g \<noteq> None)
           \<and> envFromFile lib (resolvedEnvFile w s g) = Loaded fromFile"
  then have "buildEnv lib s (defaultCommonArgs w s g) =
      Loaded (Some ((orEmpty fromFile
             ++ (case env g of None \<Rightarrow> Map.empty | Some ob \<Rightarrow> loadEnvFromObject lib ob))
             ++ (case env s of None \<Rightarrow> Map.empty | Some ob \<Rightarrow> loadEnvFromObject lib ob)))"
    using buildEnv_some_env [of s "defaultCommonArgs w s g" lib fromFile]
    by (simp add: resolvedEnvFile_def)
  then show "\<exists>m. buildEnv lib s (defaultCommonArgs w s g) = Loaded (Some m)
            \<and> (\<forall>k. m k = specPrecedence
                  (case env s of None \<Rightarrow> None | Some ob \<Rightarrow> loadEnvFromObject lib ob k)
                  (case env g of None \<Rightarrow> None | Some ob \<Rightarrow> loadEnvFromObject lib ob k)
                  (orEmpty fromFile k))"
    by (simp add: map_add_precedence split: option.splits)
next
  fix name restArg f e
  assume h: "denoArgv w = name # restArg \<and> name \<noteq> [] \<and> config name = Some s
           \<and> file s = Some f \<and> f \<noteq> [] \<and> fileExists w f \<and> \<not> watchModeEnabled s g
           \<and> buildEnv (specLib rd lf lo) s (defaultCommonArgs w s g) = Loaded e"
  then have "Scripts (specLib rd lf lo) w config g =
      finish config (defaultCommonArgs w s g) (execute (specLib rd lf lo) w s g restArg e)"
    by (intro Scripts_declared [where config = config and name = name]) simp_all
  moreover have "execute (specLib rd lf lo) w s g restArg e =
      (debugCmd g (fileCmd (specLib rd lf lo) s g f restArg) e
         @ [Spawn (fileCmd (specLib rd lf lo) s g f restArg) e True],
       Exit (code (childStatus w (fileCmd (specLib rd lf lo) s g f restArg))))"
    using h by (intro execute_file_oneshot) simp_all
  ultimately have "filter isSpawn (effects (Scripts (specLib rd lf lo) w config g)) =
      [Spawn (fileCmd (specLib rd lf lo) s g f restArg) e True]"
    by (simp add: finish_def)
  then show "filter isSpawn (effects (Scripts (specLib rd lf lo) w config g)) =
           [Spawn ([''deno'', ''run'']
              @ (case specPrecedence (permissions s) (permissions g) None of
                   None \<Rightarrow> [] | Some p \<Rightarrow> permissionFlags rd p)
              @ (case specPrecedence (tsconfig s) (tsconfig g) None of
                   None \<Rightarrow> [] | Some p \<Rightarrow> tsconfigFlag rd p)
              @ (case specPrecedence (denoArgs s) (denoArgs g) None of
                   None \<Rightarrow> [] | Some a \<Rightarrow> argTokens rd a)
              @ specArgifyImportMap rd (importMap g)
              @ specArgifyUnstable rd (unstable g)
              @ [f]
              @ (case specPrecedence (args s) (args g) None of
                   None \<Rightarrow> [] | Some a \<Rightarrow> argTokens rd a)
              @ restArg) e True]"
    by (simp add: fileCmd_def specArgifyPermissions_def specArgifyTsconfig_def
        specArgifyArgs_def nullish_specPrecedence)
qed

theorem C2_field_precedence_witness:
  "resolvedEnvFile (exWorld [''mod''] [''.env'']) watchScript watchGlobal = Some (EnvFileBool True)
   \<and> watchOptions watchScript
        (defaultCommonArgs (exWorld [''mod''] [''.env'']) watchScript watchGlobal) =
       \<lparr> paths = Value [''src''], matchGlobs = Absent, skip = Undefined, extensions = Absent,
         interval = Value 500, recursive = Absent \<rparr>
   \<and> (\<exists>m. buildEnv exLib watchScript
            (defaultCommonArgs (exWorld [''mod''] [''.env'']) watchScript watchGlobal) = Loaded (Some m)
          \<and> m ''A'' = Some ''script'' \<and> m ''B'' = Some ''2'' \<and> m ''C'' = Some ''3'')
   \<and> filter isSpawn (effects (Scripts exLib (exWorld [''tuned'', ''x''] [''./mod.ts''])
          [''tuned'' \<mapsto> tunedScript] fullGlobal)) =
       [Spawn [''deno'', ''run'', ''-c'', ''tsconfig.dev.json'', ''--reload'',
               ''--importmap=map.json'', ''--unstable'', ''./mod.ts'', ''one'', ''two'', ''x'']
          None True]"
proof -
  let ?w = "exWorld [''mod''] [''.env'']"
  let ?v = "exWorld [''tuned'', ''x''] [''./mod.ts'']"
  let ?c = "[''tuned'' \<mapsto> tunedScript]"
  note c2 = C2_field_precedence [of ?w watchScript watchGlobal exLib]
  note c2' = C2_field_precedence [of ?v tunedScript fullGlobal _ ?c exRendering exLoadFile
      exLoadObject]
  have ef: "resolvedEnvFile ?w watchScript watchGlobal = Some (EnvFileBool True)"
    using c2 by (simp add: ex_defs specPrecedence_def)
  have wo: "watchOptions watchScript (defaultCommonArgs ?w watchScript watchGlobal) =
       \<lparr> paths = Value [''src''], matchGlobs = Absent, skip = Undefined, extensions = Absent,
         interval = Value 500, recursive = Absent \<rparr>"
    using c2 by (simp add: ex_defs specUnion_def specKeyUnion_def emptyWatchOptions_def)
  have en: "(env watchScript \<noteq> None \<or> env watchGlobal \<noteq> None)
      \<and> envFromFile exLib (resolvedEnvFile ?w watchScript watchGlobal)
        = Loaded (Some [''A'' \<mapsto> ''1'', ''C'' \<mapsto> ''3''])"
    by (simp add: ef) (simp add: ex_defs envFromFile_def envFilePath_def)
  from c2 en obtain m where
    m: "buildEnv exLib watchScript (defaultCommonArgs ?w watchScript watchGlobal) = Loaded (Some m)"
    and mk: "\<forall>k. m k = specPrecedence
        (case env watchScript of None \<Rightarrow> None | Some ob \<Rightarrow> loadEnvFromObject exLib ob k)
        (case env watchGlobal of None \<Rightarrow> None | Some ob \<Rightarrow> loadEnvFromObject exLib ob k)
        (orEmpty (Some [''A'' \<mapsto> ''1'', ''C'' \<mapsto> ''3'']) k)"
    by blast
  have mv: "m ''A'' = Some ''script''" "m ''B'' = Some ''2''" "m ''C'' = Some ''3''"
    by (simp_all add: mk ex_defs specPrecedence_def showNat.simps digit_def orEmpty_def)
  have run: "denoArgv ?v = ''tuned'' # [''x''] \<and> ''tuned'' \<noteq> []
      \<and> ?c ''tuned'' = Some tunedScript
      \<and> file tunedScript = Some ''./mod.ts'' \<and> ''./mod.ts'' \<noteq> [] \<and> fileExists ?v ''./mod.ts''
      \<and> \<not> watchModeEnabled tunedScript fullGlobal
      \<and> buildEnv (specLib exRendering exLoadFile exLoadObject) tunedScript
            (defaultCommonArgs ?v tunedScript fullGlobal) = Loaded None"
    by (simp add: ex_defs run_defs)
  from c2' run have "filter isSpawn (effects (Scripts (specLib exRendering exLoadFile exLoadObject)
        ?v ?c fullGlobal)) =
      [Spawn ([''deno'', ''run'']
              @ (case specPrecedence (permissions tunedScript) (permissions fullGlobal) None of
                   None \<Rightarrow> [] | Some p \<Rightarrow> permissionFlags exRendering p)
              @ (case specPrecedence (tsconfig tunedScript) (tsconfig fullGlobal) None of
                   None \<Rightarrow> [] | Some p \<Rightarrow> tsconfigFlag exRendering p)
              @ (case specPrecedence (denoArgs tunedScript) (denoArgs fullGlobal) None of
                   None \<Rightarrow> [] | Some a \<Rightarrow> argTokens exRendering a)
              @ specArgifyImportMap exRendering (importMap fullGlobal)
              @ specArgifyUnstable exRendering (unstable fullGlobal)
              @ [''./mod.ts'']
              @ (case specPrecedence (args tunedScript) (args fullGlobal) None of
                   None \<Rightarrow> [] | Some a \<Rightarrow> argTokens exRendering a)
              @ [''x'']) None True]"
    by blast
  then have sp: "filter isSpawn (effects (Scripts exLib ?v ?c fullGlobal)) =
       [Spawn [''deno'', ''run'', ''-c'', ''tsconfig.dev.json'', ''--reload'',
               ''--importmap=map.json'', ''--unstable'', ''./mod.ts'', ''one'', ''two'', ''x'']
          None True]"
    by (simp add: ex_defs spec_defs specPrecedence_def)
  from ef wo m mv sp show ?thesis by blast
qed

text \<open>
  C3, as stated: resolution never mutates the global configuration passed in and has no
  observable side effect other than probing for \<open>.env\<close>. The script \<open>serve\<close> has
  \<open>watch: true\<close>, the global configuration has no \<open>envFile\<close> and \<open>.env\<close> exists:
  \<open>defaultCommonArgs\<close> assigns \<open>true\<close> to \<open>globalConfig.envFile\<close>, so the caller's object
  has after the run an \<open>envFile\<close> it did not have before, and the run logs
  \<open>Watch mode enabled.\<close> before its launcher starts the child.
\<close>

theorem C3_resolution_writes_and_logs:
  "envFile noGlobal = None
   \<and> envFile (globalAfter (Scripts exLib (exWorld [''serve''] [''.env'']) exConfig noGlobal))
       = Some (EnvFileBool True)
   \<and> effects (Scripts exLib (exWorld [''serve''] [''.env'']) exConfig noGlobal)
       = [Log ''Watch mode enabled.'',
          Spawn [''echo'', ''hello''] (Some [''A'' \<mapsto> ''1'', ''C'' \<mapsto> ''3'']) False]"
  by (simp add: ex_defs run_defs spec_defs Let_def)

text \<open>
  C3, amended: a run never writes to the declared scripts. It writes to the global
  configuration only in \<open>defaultCommonArgs\<close>: when a script is selected, the global
  \<open>envFile\<close> is undefined and \<open>.env\<close> exists, the global \<open>envFile\<close> becomes \<open>true\<close>;
  otherwise the global configuration is unchanged. And all a run does before its launcher
  acts, besides probing for \<open>.env\<close>, reading the environment file and that write, is
  to log \<open>Watch mode enabled.\<close> when a script is selected, its environment is built and
  watch mode is on.
\<close>

theorem C3_frame:
  "configAfter (Scripts lib w config g) = config
   \<and> globalAfter (Scripts lib w config g) =
       (if selected w config \<noteq> None \<and> envFile g = None \<and> fileExists w ''.env''
        then g\<lparr>envFile := Some (EnvFileBool True)\<rparr> else g)
   \<and> beforeLaunch (effects (Scripts lib w config g)) =
       (case selected w config of
          None \<Rightarrow> []
        | Some s \<Rightarrow>
            (case buildEnv lib s (defaultCommonArgs w s g) of
               LoadError \<Rightarrow> []
             | Loaded e \<Rightarrow> if watchModeEnabled s g then [Log ''Watch mode enabled.''] else []))"
proof -
  have "globalAfter (Scripts lib w config g) =
       (if selected w config \<noteq> None \<and> envFile g = None \<and> fileExists w ''.env''
        then g\<lparr>envFile := Some (EnvFileBool True)\<rparr> else g)"
    by (auto simp: Scripts_globalAfter defaultCommonArgs_def split: option.splits)
  then show ?thesis
    using Scripts_configAfter [of lib w config g] Scripts_beforeLaunch [of lib w config g]
    by simp
qed

theorem C3_frame_witness:
  "globalAfter (Scripts exLib (exWorld [''serve''] []) exConfig fullGlobal) = fullGlobal
   \<and> configAfter (Scripts exLib (exWorld [''serve''] []) exConfig fullGlobal) = exConfig
   \<and> beforeLaunch (effects (Scripts exLib (exWorld [''serve''] []) exConfig fullGlobal))
       = [Log ''Watch mode enabled.'']
   \<and> globalAfter (Scripts exLib (exWorld [''echo''] [''.env'']) exConfig noGlobal)
       = noGlobal\<lparr>envFile := Some (EnvFileBool True)\<rparr>
   \<and> beforeLaunch (effects (Scripts exLib (exWorld [''echo''] [''.env'']) exConfig noGlobal)) = []"
  using C3_frame [of exLib "exWorld [''serve''] []" exConfig fullGlobal]
    C3_frame [of exLib "exWorld [''echo''] [''.env'']" exConfig noGlobal]
  by (simp add: ex_defs selected_def getProperty_def buildEnv_def envFromFile_def envFilePath_def
      addEnvObject_def defaultCommonArgs_def nullish_def watchModeEnabled_def)

subsection \<open>The environment of the child\<close>

text \<open>
  C4. Lines 146 to 168 build the environment from the script and the global configuration
  as they are there. It is \<open>undefined\<close> when neither has an \<open>envFile\<close> nor an
  \<open>env\<close>, and more generally when the \<open>envFile\<close> read at line 146 is falsy and
  neither has an \<open>env\<close>. Otherwise it is the overlay, a later entry winning, of the
  entries loaded from the environment file (none when that \<open>envFile\<close> is falsy), then
  those of the global \<open>env\<close>, then those of the script's \<open>env\<close>; an exception of the
  loader propagates. The global configuration of line 146 is the one
  \<open>defaultCommonArgs\<close> has been through: \<open>default_envFile_loads_dotenv\<close> is the run
  of a configuration without any \<open>envFile\<close> in a directory that has a \<open>.env\<close>.
\<close>

theorem C4_buildEnv:
  "(envFile s = None \<and> envFile g = None \<and> env s = None \<and> env g = None
      \<longrightarrow> buildEnv lib s g = Loaded None)
   \<and> buildEnv lib s g =
     (if \<not> envFileTruthy (nullish (envFile s) (envFile g)) \<and> env g = None \<and> env s = None
      then Loaded None
      else (case (if envFileTruthy (nullish (envFile s) (envFile g))
                  then loadEnvFromFile lib (envFilePath (nullish (envFile s) (envFile g)))
                  else Loaded Map.empty) of
              LoadError \<Rightarrow> LoadError
            | Loaded fromFile \<Rightarrow>
                Loaded (Some (fromFile
                  ++ (case env g of None \<Rightarrow> Map.empty | Some ob \<Rightarrow> loadEnvFromObject lib ob)
                  ++ (case env s of None \<Rightarrow> Map.empty | Some ob \<Rightarrow> loadEnvFromObject lib ob)))))"
proof -
  have "buildEnv lib s g = Loaded None"
    if "envFile s = None \<and> envFile g = None \<and> env s = None \<and> env g = None"
    using that by (simp add: buildEnv_def envFromFile_def addEnvObject_def nullish_def)
  then show ?thesis using buildEnv_overlay [of lib s g] by blast
qed

theorem C4_buildEnv_witness:
  "buildEnv exLib echoScript noGlobal = Loaded None
   \<and> (\<exists>m. buildEnv exLib watchScript (watchGlobal\<lparr>envFile := Some (EnvFileBool True)\<rparr>)
            = Loaded (Some m)
          \<and> m ''A'' = Some ''script'' \<and> m ''B'' = Some ''2'' \<and> m ''C'' = Some ''3'')"
proof -
  have none: "envFile echoScript = None \<and> envFile noGlobal = None
      \<and> env echoScript = None \<and> env noGlobal = None"
    by (simp add: ex_defs)
  show ?thesis
    using none C4_buildEnv [of echoScript noGlobal exLib]
      C4_buildEnv [of watchScript "watchGlobal\<lparr>envFile := Some (EnvFileBool True)\<rparr>" exLib]
    by (simp add: ex_defs nullish_def envFilePath_def showNat.simps digit_def)
qed

subsection \<open>The command line\<close>

text \<open>
  C5. For a command script (\<open>run\<close> set and truthy, no \<open>file\<close>) the one child a run
  starts has the command line: the tokens of \<open>run\<close>, then the resolved \<open>args\<close> (those
  of the script, else those of the global configuration), then the arguments after the
  script name, in order. The tokens of a string are its whitespace-delimited words, those
  of a sequence the sequence itself: \<open>"echo hello"\<close> gives \<open>["echo", "hello"]\<close>. The
  helpers \<open>toArgsStringList\<close> and \<open>argifyArgs\<close> are the ones modelled from the
  specification.
\<close>

theorem C5_command_argv:
  assumes "denoArgv w = name # restArg" and "name \<noteq> []" and "config name = Some s"
    and "file s = None" and "run s = Some r" and "stringOrListTruthy (Some r)"
    and "buildEnv (specLib rd lf lo) s (defaultCommonArgs w s g) = Loaded e"
  shows "filter isSpawn (effects (Scripts (specLib rd lf lo) w config g)) =
           [Spawn (specToArgsStringList r
                     @ (case specPrecedence (args s) (args g) None of
                          None \<Rightarrow> [] | Some a \<Rightarrow> argTokens rd a)
                     @ restArg) e False]
     \<and> specToArgsStringList (Str ''echo hello'') = [''echo'', ''hello'']
     \<and> (\<forall>xs. specToArgsStringList (StrList xs) = xs)"
proof -
  have nf: "\<not> stringTruthy (file s)" using assms(4) by simp
  have "effects (Scripts (specLib rd lf lo) w config g) =
      fst (execute (specLib rd lf lo) w s g restArg e)"
    using Scripts_declared [where config = config and name = name, OF assms(1,2,3,7)] by (simp add: finish_def)
  then have "filter isSpawn (effects (Scripts (specLib rd lf lo) w config g)) =
      [Spawn (runCmd (specLib rd lf lo) s g r restArg) e False]"
    using execute_run [OF nf assms(5,6)] by simp
  moreover have "runCmd (specLib rd lf lo) s g r restArg =
      specToArgsStringList r
        @ (case specPrecedence (args s) (args g) None of None \<Rightarrow> [] | Some a \<Rightarrow> argTokens rd a)
        @ restArg"
    by (simp add: runCmd_def specArgifyArgs_def nullish_specPrecedence)
  moreover have "specToArgsStringList (Str ''echo hello'') = [''echo'', ''hello'']"
    by (simp add: spec_defs)
  ultimately show ?thesis by (simp add: specToArgsStringList_def)
qed

theorem C5_command_argv_witness:
  "filter isSpawn
     (effects (Scripts exLib (exWorld [''echo'', ''--loud'', ''x''] []) exConfig noGlobal)) =
     [Spawn [''echo'', ''hello'', ''--loud'', ''x''] None False]"
proof -
  have b: "buildEnv (specLib exRendering exLoadFile exLoadObject)
      echoScript (defaultCommonArgs (exWorld [''echo'', ''--loud'', ''x''] []) echoScript noGlobal)
      = Loaded None"
    by (simp add: ex_defs run_defs)
  have "denoArgv (exWorld [''echo'', ''--loud'', ''x''] []) = ''echo'' # [''--loud'', ''x'']"
    and "''echo'' \<noteq> []" and "exConfig ''echo'' = Some echoScript"
    and "file echoScript = None" and "run echoScript = Some (Str ''echo hello'')"
    and "stringOrListTruthy (Some (Str ''echo hello''))"
    by (simp_all add: ex_defs)
  from C5_command_argv [where config = exConfig and name = "''echo''", OF this b] show ?thesis
    by (simp add: ex_defs spec_defs specPrecedence_def)
qed

text \<open>
  C6. For a file script launched in one-shot mode (its file exists and watch mode is off)
  the one child a run starts has the command line, in this order: \<open>deno run\<close>, the
  permission flags, the tsconfig flag, the extra interpreter arguments, the import-map
  flag, the unstable flag, the file, the arguments of the script, the arguments after the
  script name. This holds whatever the helpers of \<open>lib\<close> are. Each helper, as modelled
  from the specification, is a function of its local and global value and gives no token
  when both are unset.
\<close>

theorem C6_file_argv:
  assumes "denoArgv w = name # restArg" and "name \<noteq> []" and "config name = Some s"
    and "file s = Some f" and "f \<noteq> []" and "fileExists w f" and "\<not> watchModeEnabled s g"
    and "buildEnv lib s (defaultCommonArgs w s g) = Loaded e"
  shows "filter isSpawn (effects (Scripts lib w config g)) =
           [Spawn ([''deno'', ''run'']
                     @ argifyPermissions lib (permissions s) (permissions g)
                     @ argifyTsconfig lib (tsconfig s) (tsconfig g)
                     @ argifyArgs lib (denoArgs s) (denoArgs g)
                     @ argifyImportMap lib (importMap g)
                     @ argifyUnstable lib (unstable g)
                     @ [f]
                     @ argifyArgs lib (args s) (args g)
                     @ restArg) e True]
     \<and> specArgifyPermissions rd None None = []
     \<and> specArgifyTsconfig rd None None = []
     \<and> specArgifyArgs rd None None = []
     \<and> specArgifyImportMap rd None = []
     \<and> specArgifyUnstable rd None = []"
proof -
  have "effects (Scripts lib w config g) = fst (execute lib w s g restArg e)"
    using Scripts_declared [where config = config and name = name, OF assms(1,2,3,8)] by (simp add: finish_def)
  then have "filter isSpawn (effects (Scripts lib w config g)) =
      [Spawn (fileCmd lib s g f restArg) e True]"
    using execute_file_oneshot [OF assms(4,5,6,7)] by simp
  then show ?thesis
    by (simp add: fileCmd_def specArgifyPermissions_def specArgifyTsconfig_def
        specArgifyArgs_def specArgifyImportMap_def specArgifyUnstable_def nullish_def)
qed

theorem C6_file_argv_witness:
  "filter isSpawn (effects (Scripts exLib (exWorld [''mod'', ''x''] [''./mod.ts'']) exConfig fullGlobal)) =
     [Spawn [''deno'', ''run'', ''-A'', ''-c'', ''tsconfig.json'', ''-L'', ''info'',
             ''--importmap=map.json'', ''--unstable'', ''./mod.ts'', ''a b'', ''x''] None True]"
proof -
  have b: "buildEnv exLib modScript
      (defaultCommonArgs (exWorld [''mod'', ''x''] [''./mod.ts'']) modScript fullGlobal)
      = Loaded None"
    by (simp add: ex_defs run_defs)
  have "denoArgv (exWorld [''mod'', ''x''] [''./mod.ts'']) = ''mod'' # [''x'']"
    and "''mod'' \<noteq> []" and "exConfig ''mod'' = Some modScript"
    and "file modScript = Some ''./mod.ts''" and "''./mod.ts'' \<noteq> []"
    and "fileExists (exWorld [''mod'', ''x''] [''./mod.ts'']) ''./mod.ts''"
    and "\<not> watchModeEnabled modScript fullGlobal"
    by (simp_all add: ex_defs watchModeEnabled_def nullish_def)
  from C6_file_argv [where config = exConfig and name = "''mod''", OF this b] show ?thesis
    by (simp add: ex_defs spec_defs nullish_def)
qed

subsection \<open>Fatal errors\<close>

text \<open>
  C7. A name that is not declared is said to fail with a message that contains the name.
  \<open>toString\<close> is not declared in the example configuration, and \<open>config["toString"]\<close> is
  the function every object inherits, which is not \<open>null\<close>: the run goes on with it, finds
  neither \<open>file\<close> nor \<open>run\<close>, and fails with \<open>Script not found!\<close>, which does not name the
  script. For a name that is neither declared nor inherited the message is
  \<open>script "name" not found!\<close> (\<open>Scripts_unknown_script\<close>,
  \<open>notFoundMessage_names_script\<close>), and with no name or an empty one it is
  \<open>Specify a script to be executed!\<close> (\<open>Scripts_no_script_name\<close>).
\<close>

theorem C7_inherited_name:
  "exConfig ''toString'' = None
   \<and> Scripts exLib (exWorld [''toString''] []) exConfig noGlobal =
       \<lparr> effects = [], outcome = Fatal ''Script not found!'',
         configAfter = exConfig, globalAfter = noGlobal \<rparr>
   \<and> \<not> sublist ''toString'' ''Script not found!''"
proof -
  have "\<not> sublist ''toString'' ''Script not found!''" by code_simp
  then show ?thesis by (simp add: ex_defs run_defs Let_def)
qed

text \<open>
  C8. For a file script whose file does not exist, a run starts no child process and ends
  with a failure. Unless the loader of the environment file throws first, the failure is
  fatal with a message that contains the path: \<open>File path not found!\<close> for a path that is
  not empty. (An empty path is falsy: the run then ends with \<open>Script not found!\<close>, without
  asking whether the file exists.)
\<close>

theorem C8_missing_file:
  assumes "denoArgv w = name # restArg" and "name \<noteq> []" and "config name = Some s"
    and "file s = Some f" and "run s = None" and "\<not> fileExists w f"
  shows "filter isSpawn (effects (Scripts lib w config g)) = []
     \<and> exitsNonZero (outcome (Scripts lib w config g))
     \<and> (buildEnv lib s (defaultCommonArgs w s g) \<noteq> LoadError \<longrightarrow>
          (\<exists>msg. outcome (Scripts lib w config g) = Fatal msg \<and> sublist f msg
             \<and> (f \<noteq> [] \<longrightarrow> msg = ''File '' @ f @ '' not found!'')))"
proof (cases "buildEnv lib s (defaultCommonArgs w s g)")
  case LoadError
  then show ?thesis
    using Scripts_declared_load_error [where config = config and name = name, OF assms(1,2,3)]
    by (simp add: finish_def)
next
  case (Loaded e)
  note found = Scripts_declared [where config = config and name = name, OF assms(1,2,3) Loaded]
  show ?thesis
  proof (cases "f = []")
    case True
    have "\<not> stringTruthy (file s)" and "\<not> stringOrListTruthy (run s)"
      using assms(4,5) True by simp_all
    from execute_no_target [OF this] show ?thesis
      using found Loaded True by (simp add: finish_def)
  next
    case False
    have "sublist f (''File '' @ f @ '' not found!'')" by (rule sublist_appendI)
    then show ?thesis
      using found Loaded False execute_file_missing [OF assms(4) False assms(6)]
      by (simp add: finish_def fileMissingMessage_def)
  qed
qed

theorem C8_missing_file_witness:
  "outcome (Scripts exLib (exWorld [''mod''] []) exConfig noGlobal)
     = Fatal ''File ./mod.ts not found!''
   \<and> filter isSpawn (effects (Scripts exLib (exWorld [''mod''] []) exConfig noGlobal)) = []"
proof -
  have b: "buildEnv exLib modScript (defaultCommonArgs (exWorld [''mod''] []) modScript noGlobal)
      \<noteq> LoadError"
    by (simp add: ex_defs run_defs)
  have "denoArgv (exWorld [''mod''] []) = ''mod'' # []"
    and "''mod'' \<noteq> []" and "exConfig ''mod'' = Some modScript"
    and "file modScript = Some ''./mod.ts''" and "run modScript = None"
    and "\<not> fileExists (exWorld [''mod''] []) ''./mod.ts''"
    by (simp_all add: ex_defs)
  from C8_missing_file [where config = exConfig and name = "''mod''", OF this] b
  show ?thesis by auto
qed

subsection \<open>The exit code\<close>

text \<open>
  C9. A run that launches a child process ends by \<open>Deno.exit\<close> with the code of the
  status of that child: the exit code of a child that exited, so 0 for one that succeeded
  and a code other than 0 for one that did not. A child ended by a signal has a status
  that is not a success, with a code other than 0: the run ends as a failure. A child is
  only launched in one-shot mode: a run in watch mode launches none.
\<close>

theorem C9_exit_code:
  assumes "Spawn cmd e inh \<in> set (effects (Scripts lib w config g))"
  shows "outcome (Scripts lib w config g) = Exit (code (childStatus w cmd))
     \<and> (\<forall>n. childExit w cmd = Exited n \<longrightarrow> outcome (Scripts lib w config g) = Exit (int n))
     \<and> (success (childStatus w cmd) \<longrightarrow> outcome (Scripts lib w config g) = Exit 0)
     \<and> (\<not> success (childStatus w cmd) \<longrightarrow> exitsNonZero (outcome (Scripts lib w config g)))
     \<and> (\<forall>sg. childExit w cmd = Signaled sg \<longrightarrow>
           \<not> success (childStatus w cmd) \<and> exitsNonZero (outcome (Scripts lib w config g)))"
proof -
  have "outcome (Scripts lib w config g) = Exit (code (childStatus w cmd))"
    using assms execute_spawn
    by (auto simp: Scripts_def finish_def Let_def
        split: list.splits if_splits option.splits loaded.splits)
  then show ?thesis by (cases "childExit w cmd") (simp_all add: childStatus_def)
qed

theorem C9_exit_code_witness:
  "outcome (Scripts exLib (exWorld [''echo''] []) exConfig noGlobal) = Exit 0
   \<and> outcome (Scripts exLib (exWorld [''echo'', ''--fail''] []) exConfig noGlobal) = Exit 3
   \<and> outcome (Scripts exLib (exWorld [''echo'', ''--kill''] []) exConfig noGlobal) = Exit 137
   \<and> exitsNonZero (outcome (Scripts exLib (exWorld [''echo'', ''--kill''] []) exConfig noGlobal))"
proof -
  have h0: "Spawn [''echo'', ''hello''] None False
      \<in> set (effects (Scripts exLib (exWorld [''echo''] []) exConfig noGlobal))"
    by (simp add: ex_defs run_defs spec_defs Let_def)
  have h1: "Spawn [''echo'', ''hello'', ''--fail''] None False
      \<in> set (effects (Scripts exLib (exWorld [''echo'', ''--fail''] []) exConfig noGlobal))"
    by (simp add: ex_defs run_defs spec_defs Let_def)
  have h2: "Spawn [''echo'', ''hello'', ''--kill''] None False
      \<in> set (effects (Scripts exLib (exWorld [''echo'', ''--kill''] []) exConfig noGlobal))"
    by (simp add: ex_defs run_defs spec_defs Let_def)
  have e0: "childExit (exWorld [''echo''] []) [''echo'', ''hello''] = Exited 0"
    and e1: "childExit (exWorld [''echo'', ''--fail''] []) [''echo'', ''hello'', ''--fail'']
      = Exited 3"
    and e2: "childExit (exWorld [''echo'', ''--kill''] []) [''echo'', ''hello'', ''--kill'']
      = Signaled 9"
    by (simp_all add: exWorld_def)
  show ?thesis
    using C9_exit_code [OF h0] C9_exit_code [OF h1] C9_exit_code [OF h2] e0 e1 e2
    by (simp add: childStatus_def)
qed

text \<open>
  C10. For a command script with watch mode on (the \<open>watch\<close> of the script, else that of
  the global configuration, is truthy), a run logs \<open>Watch mode enabled.\<close>, creates no
  watcher, starts the command once and exits with the code of the child. The watch options
  are not read: any other truthy \<open>watch\<close> in the script gives the same run.
\<close>

theorem C10_command_script_in_watch_mode:
  assumes "denoArgv w = name # restArg" and "name \<noteq> []" and "config name = Some s"
    and "file s = None" and "run s = Some r" and "stringOrListTruthy (Some r)"
    and "watchModeEnabled s g"
    and "buildEnv lib s (defaultCommonArgs w s g) = Loaded e"
  shows "effects (Scripts lib w config g) =
           Log ''Watch mode enabled.'' # debugCmd g (runCmd lib s g r restArg) e
             @ [Spawn (runCmd lib s g r restArg) e False]
     \<and> outcome (Scripts lib w config g) = Exit (code (childStatus w (runCmd lib s g r restArg)))
     \<and> filter isWatcherCreated (effects (Scripts lib w config g)) = []
     \<and> (\<forall>v. watchTruthy (Some v) \<longrightarrow>
          effects (Scripts lib w (config(name \<mapsto> s\<lparr>watch := Some v\<rparr>)) g)
            = effects (Scripts lib w config g)
          \<and> outcome (Scripts lib w (config(name \<mapsto> s\<lparr>watch := Some v\<rparr>)) g)
            = outcome (Scripts lib w config g))"
proof -
  have nf: "\<not> stringTruthy (file s)" using assms(4) by simp
  note found = Scripts_declared [where config = config and name = name, OF assms(1,2,3,8)]
  have run: "Scripts lib w config g = finish config (defaultCommonArgs w s g)
      (Log ''Watch mode enabled.'' # debugCmd g (runCmd lib s g r restArg) e
         @ [Spawn (runCmd lib s g r restArg) e False],
       Exit (code (childStatus w (runCmd lib s g r restArg))))"
    using found execute_run [OF nf assms(5,6)] assms(7) by simp
  have other: "effects (Scripts lib w (config(name \<mapsto> s\<lparr>watch := Some v\<rparr>)) g)
            = effects (Scripts lib w config g)
          \<and> outcome (Scripts lib w (config(name \<mapsto> s\<lparr>watch := Some v\<rparr>)) g)
            = outcome (Scripts lib w config g)" if v: "watchTruthy (Some v)" for v
  proof -
    let ?s = "s\<lparr>watch := Some v\<rparr>"
    have nf': "\<not> stringTruthy (file ?s)" and r': "run ?s = Some r"
      using assms(4,5) by simp_all
    have en: "watchModeEnabled ?s g" using v by (simp add: watchModeEnabled_def nullish_def)
    have sel: "(config(name \<mapsto> ?s)) name = Some ?s" by simp
    have b: "buildEnv lib ?s (defaultCommonArgs w ?s g) = Loaded e"
      using assms(8) by (simp add: watch_update_irrelevant)
    have "Scripts lib w (config(name \<mapsto> ?s)) g =
        finish (config(name \<mapsto> ?s)) (defaultCommonArgs w ?s g) (execute lib w ?s g restArg e)"
      using Scripts_declared [where config = "config(name \<mapsto> ?s)" and name = name,
          OF assms(1,2) sel b] .
    then show ?thesis
      using execute_run [OF nf' r' assms(6)] en run
      by (simp add: finish_def watch_update_irrelevant)
  qed
  show ?thesis using run other by (simp add: finish_def)
qed

theorem C10_command_script_in_watch_mode_witness:
  "effects (Scripts exLib (exWorld [''serve'', ''x''] []) exConfig noGlobal) =
     [Log ''Watch mode enabled.'', Spawn [''echo'', ''hello'', ''x''] None False]
   \<and> outcome (Scripts exLib (exWorld [''serve'', ''x''] []) exConfig noGlobal) = Exit 0"
proof -
  let ?s = "echoScript\<lparr>watch := Some (WatchBool True)\<rparr>"
  have b: "buildEnv exLib ?s (defaultCommonArgs (exWorld [''serve'', ''x''] []) ?s noGlobal)
      = Loaded None"
    by (simp add: ex_defs run_defs)
  have "denoArgv (exWorld [''serve'', ''x''] []) = ''serve'' # [''x'']"
    and "''serve'' \<noteq> []" and "exConfig ''serve'' = Some ?s"
    and "file ?s = None" and "run ?s = Some (Str ''echo hello'')"
    and "stringOrListTruthy (Some (Str ''echo hello''))"
    and "watchModeEnabled ?s noGlobal"
    by (simp_all add: ex_defs watchModeEnabled_def nullish_def)
  from C10_command_script_in_watch_mode [where config = exConfig and name = "''serve''", OF this b]
  show ?thesis
    by (simp add: ex_defs spec_defs runCmd_def debugCmd_def nullish_def childStatus_def)
qed

end
